theory Spec2Isabelle
  imports Complex_Main
begin

section \<open>Values exchanged with the outside world\<close>

text \<open>
  The pipeline of \<open>script/main.py\<close> handles untyped Python values: whatever the decoded
  JSON reply of the lookup service holds is passed on to the descriptor calculation, the
  store and the exported file. A decoded JSON document is modelled as it is in Python:
  \<open>None\<close>, \<open>bool\<close>, a number, \<open>str\<close>, \<open>list\<close> and \<open>dict\<close> (the items of the dict,
  looked up by key). Numbers are idealised as reals.
\<close>

datatype json =
    JNull
  | JBool bool
  | JNum real
  | JStr string
  | JArr "json list"
  | JObj "(string \<times> json) list"

text \<open>Python's truth value of a decoded JSON value, as tested by \<open>if not smiles_string\<close>.\<close>

fun truthy :: "json \<Rightarrow> bool" where
  "truthy JNull = False"
| "truthy (JBool b) = b"
| "truthy (JNum x) = (x \<noteq> 0)"
| "truthy (JStr s) = (s \<noteq> [])"
| "truthy (JArr xs) = (xs \<noteq> [])"
| "truthy (JObj kvs) = (kvs \<noteq> [])"

text \<open>The exceptions that the modelled statements raise.\<close>

datatype exn =
    RequestException string
  | JSONDecodeError
  | KeyError string
  | IndexError
  | TypeError
  | AttributeError
  | OtherException string

text \<open>\<open>x['key']\<close>: only a dict can be subscripted with a string.\<close>

fun getitem_key :: "json \<Rightarrow> string \<Rightarrow> exn + json" where
  "getitem_key (JObj kvs) k =
     (case map_of kvs k of None \<Rightarrow> Inl (KeyError k) | Some v \<Rightarrow> Inr v)"
| "getitem_key _ k = Inl TypeError"

text \<open>
  \<open>x[0]\<close>: the first element of a list, the first character of a string, a missing key
  of a dict (the keys of a decoded JSON object are strings), a type error otherwise.
\<close>

fun getitem_0 :: "json \<Rightarrow> exn + json" where
  "getitem_0 (JArr []) = Inl IndexError"
| "getitem_0 (JArr (v # vs)) = Inr v"
| "getitem_0 (JStr []) = Inl IndexError"
| "getitem_0 (JStr (c # cs)) = Inr (JStr [c])"
| "getitem_0 (JObj kvs) = Inl (KeyError ''0'')"
| "getitem_0 _ = Inl TypeError"

text \<open>\<open>x.get('key')\<close>: \<open>None\<close> for a key that the dict lacks; only a dict has the method.\<close>

definition dict_get :: "(string \<times> json) list \<Rightarrow> string \<Rightarrow> json" where
  "dict_get kvs k = (case map_of kvs k of None \<Rightarrow> JNull | Some v \<Rightarrow> v)"

fun get_method :: "json \<Rightarrow> string \<Rightarrow> exn + json" where
  "get_method (JObj kvs) k = Inr (dict_get kvs k)"
| "get_method _ k = Inl AttributeError"

text \<open>
  What \<open>requests.get\<close> does with one request: it raises (no connection, timeout, ...)
  or it returns a response with a status code and a body; \<open>response.json()\<close> raises
  when the body is not a JSON document (\<open>None\<close> below) and returns the decoded document
  otherwise.
\<close>

datatype http_result =
    Raised exn
  | Response int "json option"

section \<open>The world the pipeline runs in\<close>

text \<open>
  The lookup service, the chemistry library and the random number generator are
  parameters of the model. Every name of the registry is requested once in a run, so the
  service is a function of the request URL. \<open>uniform a b\<close> is \<open>random.uniform(a, b)\<close>: it
  returns the draw and the generator's next state.
\<close>

record ('g, 'mol) env =
  http :: "string \<Rightarrow> http_result"
  MolFromSmiles :: "json \<Rightarrow> exn + 'mol option"
  MolLogP :: "'mol \<Rightarrow> exn + real"
  uniform :: "real \<Rightarrow> real \<Rightarrow> 'g \<Rightarrow> real \<times> 'g"

text \<open>One row of table \<open>screening_results\<close>, with the six columns of its schema.\<close>

record row =
  r_name :: string
  r_type :: string
  r_smiles :: json
  r_mw :: json
  r_logp :: real
  r_score :: real

text \<open>
  The mutable state: the requests sent so far, the state of the random number generator,
  the rows of table \<open>screening_results\<close> in file \<open>results.db\<close> in insertion order, and
  the rows written to file \<open>natvssynt.csv\<close> (\<open>None\<close> while the file does not exist).
\<close>

record 'g state =
  requests :: "string list"
  rng :: 'g
  results_db :: "row list"
  natvssynt_csv :: "json list list option"

section \<open>Constants and configuration\<close>



text \<open>\<open>BASE_URL.format(drug_name)\<close>: the name replaces the only placeholder.\<close>

definition request_url :: "string \<Rightarrow> string" where
  "request_url drug_name =
     ''https://pubchem.ncbi.nlm.nih.gov/rest/pug/compound/name/'' @ drug_name @
     ''/property/MolecularWeight,IsomericSMILES/JSON''"

section \<open>Property fetcher\<close>

text \<open>
  The body of the \<open>try\<close> block of \<open>get_compound_data\<close>, applied to the outcome of the
  request: \<open>Inl\<close> is an exception that leaves the block.
\<close>

definition extract_smiles :: "json \<Rightarrow> exn + json" where
  "extract_smiles first_result =
     (case get_method first_result ''IsomericSMILES'' of
        Inl e \<Rightarrow> Inl e
      | Inr s1 \<Rightarrow>
         (case (if \<not> truthy s1 then get_method first_result ''CanonicalSMILES'' else Inr s1) of
            Inl e \<Rightarrow> Inl e
          | Inr s2 \<Rightarrow>
             (if \<not> truthy s2 then get_method first_result ''SMILES'' else Inr s2)))"

definition try_block :: "http_result \<Rightarrow> exn + (json \<times> json)" where
  "try_block r =
     (case r of
        Raised e \<Rightarrow> Inl e
      | Response status_code body \<Rightarrow>
         (if status_code = 200 then
            (case body of
               None \<Rightarrow> Inl JSONDecodeError
             | Some json_data \<Rightarrow>
                (case getitem_key json_data ''PropertyTable'' of
                   Inl e \<Rightarrow> Inl e
                 | Inr property_table \<Rightarrow>
                    (case getitem_key property_table ''Properties'' of
                       Inl e \<Rightarrow> Inl e
                     | Inr properties_list \<Rightarrow>
                        (case getitem_0 properties_list of
                           Inl e \<Rightarrow> Inl e
                         | Inr first_result \<Rightarrow>
                            (case extract_smiles first_result of
                               Inl e \<Rightarrow> Inl e
                             | Inr smiles_string \<Rightarrow>
                                (case get_method first_result ''MolecularWeight'' of
                                   Inl e \<Rightarrow> Inl e
                                 | Inr molecular_weight \<Rightarrow>
                                     Inr (smiles_string, molecular_weight)))))))
          else Inr (JNull, JNull)))"

text \<open>
  \<open>get_compound_data\<close>: one request; \<open>except Exception\<close> turns every exception of the
  block into the pair \<open>(None, None)\<close>.
\<close>

definition get_compound_data ::
  "('g, 'mol) env \<Rightarrow> string \<Rightarrow> 'g state \<Rightarrow> (json \<times> json) \<times> 'g state" where
  "get_compound_data world drug_name st =
     (let url = request_url drug_name;
          st1 = st\<lparr>requests := requests st @ [url]\<rparr>
      in case try_block (http world url) of
           Inl error_message \<Rightarrow> ((JNull, JNull), st1)
         | Inr result \<Rightarrow> (result, st1))"

text \<open>
  The pair that \<open>get_compound_data\<close> returns for a name; it does not depend on the
  state, which only records the request.
\<close>

definition fetched :: "('g, 'mol) env \<Rightarrow> string \<Rightarrow> json \<times> json" where
  "fetched world drug_name =
     (case try_block (http world (request_url drug_name)) of
        Inl error_message \<Rightarrow> (JNull, JNull)
      | Inr result \<Rightarrow> result)"

section \<open>Descriptor calculator\<close>

text \<open>
  Python's \<open>round(x, ndigits)\<close> on the idealised reals: the nearest multiple of
  \<open>10^(-ndigits)\<close>, a tie going to the even one.
\<close>

definition py_round :: "real \<Rightarrow> nat \<Rightarrow> real" where
  "py_round x ndigits =
     (let scaled = x * 10 ^ ndigits;
          lower = \<lfloor>scaled\<rfloor>;
          frac = scaled - of_int lower
      in of_int (if frac < 1 / 2 then lower
                 else if 1 / 2 < frac then lower + 1
                 else if even lower then lower else lower + 1) / 10 ^ ndigits)"

text \<open>
  \<open>calculate_logp\<close>: \<open>Chem.MolFromSmiles\<close> returns a molecule or \<open>None\<close>, or raises;
  \<open>Descriptors.MolLogP\<close> returns the descriptor or raises. An exception of either is
  caught, and every path that does not return the rounded descriptor returns \<open>0.0\<close>.
\<close>

definition calculate_logp :: "('g, 'mol) env \<Rightarrow> json \<Rightarrow> real" where
  "calculate_logp world smiles_string =
     (if smiles_string = JNull then 0
      else
        (case MolFromSmiles world smiles_string of
           Inl e \<Rightarrow> 0
         | Inr None \<Rightarrow> 0
         | Inr (Some molecule) \<Rightarrow>
            (case MolLogP world molecule of
               Inl e \<Rightarrow> 0
             | Inr log_p_value \<Rightarrow> py_round log_p_value 4)))"

section \<open>Affinity simulator\<close>

text \<open>
  \<open>run_docking_simulation\<close>: one draw for every category, a second one for
  \<open>"Synthetic"\<close> only; it returns the score with the state after the draws.
\<close>

definition run_docking_simulation ::
  "('g, 'mol) env \<Rightarrow> string \<Rightarrow> 'g state \<Rightarrow> real \<times> 'g state" where
  "run_docking_simulation world drug_type st =
     (let (random_score, g1) = uniform world (- 6) (- 10) (rng st)
      in if drug_type = ''Synthetic'' then
           (let (bonus, g2) = uniform world 1 2 g1;
                final_score = random_score - bonus
            in (py_round final_score 2, st\<lparr>rng := g2\<rparr>))
         else
           (let final_score = random_score
            in (py_round final_score 2, st\<lparr>rng := g1\<rparr>)))"

section \<open>Result store and exporter\<close>



text \<open>
  A row as \<open>SELECT *\<close> returns it: the six values in the order of the columns. The
  statement has no \<open>ORDER BY\<close>; SQLite scans the table by row id, which is the order of
  insertion in a table that nothing is deleted from.
\<close>

definition row_values :: "row \<Rightarrow> json list" where
  "row_values r =
     [JStr (r_name r), JStr (r_type r), r_smiles r, r_mw r, JNum (r_logp r), JNum (r_score r)]"


definition csv_header :: "json list" where
  "csv_header =
     [JStr ''Name'', JStr ''Type'', JStr ''SMILES'', JStr ''Molecular Weight'', JStr ''LogP'',
      JStr ''Score'']"

text \<open>
  \<open>export_to_csv\<close>: all rows of the table, then file \<open>natvssynt.csv\<close> opened for writing
  (what it held is lost), the header row, the data rows. The file is modelled as the
  sequence of rows handed to the writer.
\<close>

definition export_to_csv :: "'g state \<Rightarrow> 'g state" where
  "export_to_csv st =
     (let all_rows = map row_values (results_db st)
      in st\<lparr>natvssynt_csv := Some (csv_header # all_rows)\<rparr>)"

section \<open>Main execution\<close>





section \<open>Dashboard renderer\<close>

text \<open>
  \<open>create_dashboard\<close> of \<open>script/plots.py\<close>. \<open>read_csv\<close> is \<open>pd.read_csv\<close> on the
  exported file, which returns a table or raises; \<open>draw_panels\<close> stands for the
  statements after the \<open>try\<close> block up to \<open>plt.savefig\<close>, which produce the image or
  raise; \<open>exn_text\<close> is the text of an exception in a message.
\<close>

record ('df, 'img) plot_env =
  read_csv :: "json list list option \<Rightarrow> exn + 'df"
  draw_panels :: "'df \<Rightarrow> exn + 'img"
  exn_text :: "exn \<Rightarrow> string"

record 'img plot_state =
  csv_file :: "json list list option"
  printed :: "string list"
  dashboard_png :: "'img option"

definition create_dashboard ::
  "('df, 'img) plot_env \<Rightarrow> 'img plot_state \<Rightarrow> exn + 'img plot_state" where
  "create_dashboard lib ps =
     (case read_csv lib (csv_file ps) of
        Inl e \<Rightarrow> Inr (ps\<lparr>printed := printed ps @ [''Error loading data: '' @ exn_text lib e]\<rparr>)
      | Inr df \<Rightarrow>
         (let ps1 = ps\<lparr>printed := printed ps @ [''Data loaded successfully.'']\<rparr>
          in case draw_panels lib df of
               Inl e \<Rightarrow> Inl e
             | Inr picture \<Rightarrow>
                 Inr (ps1\<lparr>dashboard_png := Some picture,
                          printed := printed ps1 @ [''Dashboard saved to dashboard.png'']\<rparr>)))"

section \<open>Concrete worlds\<close>

text \<open>
  Replies and worlds at which the definitions are evaluated. \<open>reply_doc kvs\<close> is a
  reply document whose results list holds one result with the given fields.
\<close>

definition reply_doc :: "(string \<times> json) list \<Rightarrow> json" where
  "reply_doc kvs = JObj [(''PropertyTable'', JObj [(''Properties'', JArr [JObj kvs])])]"

definition ok_reply :: "(string \<times> json) list \<Rightarrow> http_result" where
  "ok_reply kvs = Response 200 (Some (reply_doc kvs))"

definition lab :: "(string \<Rightarrow> http_result) \<Rightarrow> (nat, unit) env" where
  "lab service =
     \<lparr>http = service,
      MolFromSmiles = (\<lambda>s. Inr (Some ())),
      MolLogP = (\<lambda>m. Inr (123456 / 100000)),
      uniform = (\<lambda>a b g. ((a + b) / 2, Suc g))\<rparr>"

definition st0 :: "nat state" where
  "st0 = \<lparr>requests = [], rng = 0, results_db = [], natvssynt_csv = None\<rparr>"

text \<open>A state whose table holds two rows.\<close>

definition st_two_rows :: "nat state" where
  "st_two_rows =
     \<lparr>requests = [], rng = 0,
      results_db =
        [\<lparr>r_name = ''L-Methionine'', r_type = ''Natural'', r_smiles = JStr ''CSCCC(C(=O)O)N'',
          r_mw = JNull, r_logp = 0, r_score = - 8\<rparr>,
         \<lparr>r_name = ''Trimethoprim'', r_type = ''Synthetic'',
          r_smiles = JStr ''COC1=CC(=CC(=C1OC)OC)CC2=CN=C(N=C2N)N'', r_mw = JNum (29032 / 100),
          r_logp = 1 / 2, r_score = - 95 / 10\<rparr>],
      natvssynt_csv = None\<rparr>"

text \<open>A service that is down, one that knows no compound, one that sends no JSON.\<close>

definition service_down :: "string \<Rightarrow> http_result" where
  "service_down url = Raised (RequestException ''timed out'')"

definition service_404 :: "string \<Rightarrow> http_result" where
  "service_404 url = Response 404 (Some (JObj [(''Fault'', JStr ''PUGREST.NotFound'')]))"

definition service_garbled :: "string \<Rightarrow> http_result" where
  "service_garbled url = Response 200 None"

definition service_no_results :: "string \<Rightarrow> http_result" where
  "service_no_results url =
     Response 200 (Some (JObj [(''PropertyTable'', JObj [(''Properties'', JArr [])])]))"

text \<open>A service whose result lacks the mass, and one whose result lacks the encoding.\<close>

definition service_no_mass :: "string \<Rightarrow> http_result" where
  "service_no_mass url = ok_reply [(''IsomericSMILES'', JStr ''CC(=O)O'')]"

definition service_no_smiles :: "string \<Rightarrow> http_result" where
  "service_no_smiles url = ok_reply [(''MolecularWeight'', JStr ''60.05'')]"

text \<open>
  A service that answers under the third field name, with an empty first field, and one
  that knows \<open>Methotrexate\<close> only.
\<close>

definition service_third_name :: "string \<Rightarrow> http_result" where
  "service_third_name url =
     ok_reply [(''IsomericSMILES'', JStr []), (''SMILES'', JStr ''CC(=O)O''),
               (''MolecularWeight'', JStr ''60.05'')]"


text \<open>
  A chemistry library that rejects what is not a string, finds no molecule in one string,
  and fails on the molecule of the empty string; a molecule is modelled by its number of
  characters.
\<close>

definition lab_chem :: "(nat, nat) env" where
  "lab_chem =
     \<lparr>http = service_down,
      MolFromSmiles =
        (\<lambda>s. case s of
               JStr t \<Rightarrow> if t = ''not a molecule'' then Inr None else Inr (Some (length t))
             | _ \<Rightarrow> Inl TypeError),
      MolLogP =
        (\<lambda>m. if m = 0 then Inl (OtherException ''no atoms'')
             else Inr (of_nat m + 23456 / 100000)),
      uniform = (\<lambda>a b g. ((a + b) / 2, Suc g))\<rparr>"

text \<open>A plotting library whose table is the list of rows and whose image is their number.\<close>

definition plot_lab :: "(json list list, nat) plot_env" where
  "plot_lab =
     \<lparr>read_csv =
        (\<lambda>f. case f of
               None \<Rightarrow> Inl (OtherException ''No such file or directory'')
             | Some rows \<Rightarrow> Inr (tl rows)),
      draw_panels = (\<lambda>df. Inr (length df)),
      exn_text = (\<lambda>e. case e of OtherException m \<Rightarrow> m | _ \<Rightarrow> ''error'')\<rparr>"

definition ps0 :: "nat plot_state" where
  "ps0 = \<lparr>csv_file = None, printed = [], dashboard_png = None\<rparr>"

section \<open>Rounding\<close>

lemma py_round_cases:
  "py_round x n = of_int \<lfloor>x * 10 ^ n\<rfloor> / 10 ^ n \<or>
   py_round x n = of_int (\<lfloor>x * 10 ^ n\<rfloor> + 1) / 10 ^ n"
  by (simp add: py_round_def Let_def)

lemma py_round_error: "\<bar>py_round x n - x\<bar> \<le> 1 / (2 * 10 ^ n)"
proof -
  define s where "s = x * 10 ^ n"
  define f where "f = \<lfloor>s\<rfloor>"
  define d where "d = s - of_int f"
  have p: "(10::real) ^ n > 0" by simp
  have d0: "0 \<le> d" and d1: "d < 1" unfolding d_def f_def by linarith+
  define k where
    "k = (if d < 1 / 2 then f else if 1 / 2 < d then f + 1 else if even f then f else f + 1)"
  have pr: "py_round x n = of_int k / 10 ^ n"
    by (simp add: py_round_def Let_def k_def d_def f_def s_def)
  have h: "\<bar>of_int k - s\<bar> \<le> 1 / 2"
    unfolding k_def using d0 d1 by (auto simp: d_def)
  have "\<bar>of_int k - s\<bar> / 10 ^ n \<le> (1 / 2) / 10 ^ n"
    by (rule divide_right_mono [OF h]) simp
  moreover have "\<bar>(of_int k - s) / 10 ^ n\<bar> = \<bar>of_int k - s\<bar> / 10 ^ n"
    by (simp add: abs_divide)
  moreover have "(1 / 2) / (10::real) ^ n = 1 / (2 * 10 ^ n)"
    by simp
  ultimately have "\<bar>(of_int k - s) / 10 ^ n\<bar> \<le> 1 / (2 * 10 ^ n)"
    by (simp only:)
  moreover have "py_round x n - x = (of_int k - s) / 10 ^ n"
    using p by (simp add: pr s_def diff_divide_distrib)
  ultimately show ?thesis by (simp only:)
qed

text \<open>A multiple of \<open>10^(-n)\<close> that bounds \<open>x\<close> bounds the rounded value as well.\<close>

lemma py_round_ge:
  assumes "of_int k / 10 ^ n \<le> x"
  shows "of_int k / 10 ^ n \<le> py_round x n"
proof -
  have p: "(10::real) ^ n > 0" by simp
  from assms p have "of_int k \<le> x * 10 ^ n" by (simp add: pos_divide_le_eq)
  then have "k \<le> \<lfloor>x * 10 ^ n\<rfloor>" by (simp add: le_floor_iff)
  then have a: "(of_int k :: real) \<le> of_int \<lfloor>x * 10 ^ n\<rfloor>"
    and b: "(of_int k :: real) \<le> of_int (\<lfloor>x * 10 ^ n\<rfloor> + 1)" by linarith+
  from py_round_cases [of x n] show ?thesis
  proof
    assume "py_round x n = of_int \<lfloor>x * 10 ^ n\<rfloor> / 10 ^ n"
    then show ?thesis using a p by (simp add: divide_right_mono)
  next
    assume "py_round x n = of_int (\<lfloor>x * 10 ^ n\<rfloor> + 1) / 10 ^ n"
    then show ?thesis using b p by (simp only: divide_right_mono less_imp_le)
  qed
qed

lemma py_round_le:
  assumes "x \<le> of_int k / 10 ^ n"
  shows "py_round x n \<le> of_int k / 10 ^ n"
proof -
  define s where "s = x * 10 ^ n"
  define f where "f = \<lfloor>s\<rfloor>"
  define d where "d = s - of_int f"
  have p: "(10::real) ^ n > 0" by simp
  have d0: "0 \<le> d" and d1: "d < 1" unfolding d_def f_def by linarith+
  define j where
    "j = (if d < 1 / 2 then f else if 1 / 2 < d then f + 1 else if even f then f else f + 1)"
  have pr: "py_round x n = of_int j / 10 ^ n"
    by (simp add: py_round_def Let_def j_def d_def f_def s_def)
  from assms p have sk: "s \<le> of_int k" by (simp add: s_def pos_le_divide_eq)
  have "j \<le> k"
  proof (cases "d = 0")
    case True
    then have "j = f" by (simp add: j_def)
    moreover have "f \<le> k" using sk unfolding f_def by (simp add: floor_le_iff)
    ultimately show ?thesis by simp
  next
    case False
    then have "of_int f < s" using d0 by (simp add: d_def)
    then have "of_int f < (of_int k :: real)" using sk by linarith
    then have "f < k" by simp
    moreover have "j \<le> f + 1" by (simp add: j_def)
    ultimately show ?thesis by linarith
  qed
  then have "(of_int j :: real) \<le> of_int k" by simp
  then show ?thesis using p by (simp add: pr divide_right_mono)
qed

section \<open>The fetcher on failure\<close>

lemma try_block_Raised: "try_block (Raised e) = Inl e"
  by (simp add: try_block_def)

lemma try_block_not_200:
  "status_code \<noteq> 200 \<Longrightarrow> try_block (Response status_code body) = Inr (JNull, JNull)"
  by (simp add: try_block_def)

lemma try_block_no_json: "try_block (Response 200 None) = Inl JSONDecodeError"
  by (simp add: try_block_def)

lemma get_compound_data_eq:
  "get_compound_data world drug_name st =
     (fetched world drug_name, st\<lparr>requests := requests st @ [request_url drug_name]\<rparr>)"
  by (simp add: get_compound_data_def fetched_def Let_def split: sum.splits)

text \<open>
  Claim C3. When the request raises (no connection, timeout), when the reply's status is
  not 200, when the body of a 200 reply is not JSON, or when any other exception leaves
  the \<open>try\<close> block, \<open>get_compound_data\<close> returns the pair \<open>(None, None)\<close>. It returns
  (the model has no exceptional result for it), and it has sent exactly one request: the
  failed request is not repeated.
\<close>

theorem get_compound_data_failure:
  "((\<exists>e. http world (request_url drug_name) = Raised e)
    \<or> (\<exists>status_code body. http world (request_url drug_name) = Response status_code body
          \<and> status_code \<noteq> 200)
    \<or> http world (request_url drug_name) = Response 200 None
    \<or> (\<exists>e. try_block (http world (request_url drug_name)) = Inl e))
   \<longrightarrow> get_compound_data world drug_name st =
         ((JNull, JNull), st\<lparr>requests := requests st @ [request_url drug_name]\<rparr>)"
proof
  assume "(\<exists>e. http world (request_url drug_name) = Raised e)
    \<or> (\<exists>status_code body. http world (request_url drug_name) = Response status_code body
          \<and> status_code \<noteq> 200)
    \<or> http world (request_url drug_name) = Response 200 None
    \<or> (\<exists>e. try_block (http world (request_url drug_name)) = Inl e)"
  then have "fetched world drug_name = (JNull, JNull)"
    by (auto simp: fetched_def try_block_Raised try_block_not_200 try_block_no_json)
  then show "get_compound_data world drug_name st =
         ((JNull, JNull), st\<lparr>requests := requests st @ [request_url drug_name]\<rparr>)"
    by (simp add: get_compound_data_eq)
qed

theorem get_compound_data_failure_witness:
  "get_compound_data (lab service_down) ''Aminopterin'' st0 =
     ((JNull, JNull), st0\<lparr>requests := [request_url ''Aminopterin'']\<rparr>)
   \<and> get_compound_data (lab service_404) ''Aminopterin'' st0 =
     ((JNull, JNull), st0\<lparr>requests := [request_url ''Aminopterin'']\<rparr>)
   \<and> get_compound_data (lab service_garbled) ''Aminopterin'' st0 =
     ((JNull, JNull), st0\<lparr>requests := [request_url ''Aminopterin'']\<rparr>)
   \<and> get_compound_data (lab service_no_results) ''Aminopterin'' st0 =
     ((JNull, JNull), st0\<lparr>requests := [request_url ''Aminopterin'']\<rparr>)"
proof -
  have 1: "http (lab service_down) (request_url ''Aminopterin'') =
             Raised (RequestException ''timed out'')"
    by (simp add: lab_def service_down_def)
  have 2: "http (lab service_404) (request_url ''Aminopterin'') =
             Response 404 (Some (JObj [(''Fault'', JStr ''PUGREST.NotFound'')]))
           \<and> (404::int) \<noteq> 200"
    by (simp add: lab_def service_404_def)
  have 3: "http (lab service_garbled) (request_url ''Aminopterin'') = Response 200 None"
    by (simp add: lab_def service_garbled_def)
  have 4: "try_block (http (lab service_no_results) (request_url ''Aminopterin'')) =
             Inl IndexError"
    by (simp add: lab_def service_no_results_def try_block_def)
  have r: "requests st0 = []" by (simp add: st0_def)
  show ?thesis
    using get_compound_data_failure [of "lab service_down" "''Aminopterin''" st0]
      get_compound_data_failure [of "lab service_404" "''Aminopterin''" st0]
      get_compound_data_failure [of "lab service_garbled" "''Aminopterin''" st0]
      get_compound_data_failure [of "lab service_no_results" "''Aminopterin''" st0]
      1 2 3 4 r
    by simp
qed

section \<open>The fetcher on a well-formed reply\<close>

lemma extract_smiles_dict:
  "extract_smiles (JObj kvs) =
     Inr (if truthy (dict_get kvs ''IsomericSMILES'') then dict_get kvs ''IsomericSMILES''
          else if truthy (dict_get kvs ''CanonicalSMILES'') then dict_get kvs ''CanonicalSMILES''
          else dict_get kvs ''SMILES'')"
  by (simp add: extract_smiles_def)

lemma try_block_result:
  assumes "map_of doc ''PropertyTable'' = Some (JObj table)"
    and "map_of table ''Properties'' = Some (JArr (JObj kvs # others))"
  shows "try_block (Response 200 (Some (JObj doc))) =
     Inr (if truthy (dict_get kvs ''IsomericSMILES'') then dict_get kvs ''IsomericSMILES''
          else if truthy (dict_get kvs ''CanonicalSMILES'') then dict_get kvs ''CanonicalSMILES''
          else dict_get kvs ''SMILES'',
          dict_get kvs ''MolecularWeight'')"
  using assms by (simp add: try_block_def extract_smiles_dict)

lemma getitem_key_Inr:
  "getitem_key j k = Inr v \<Longrightarrow> \<exists>kvs. j = JObj kvs \<and> map_of kvs k = Some v"
  by (cases j) (auto split: option.splits)

lemma getitem_0_dict:
  "getitem_0 j = Inr (JObj kvs) \<Longrightarrow> \<exists>others. j = JArr (JObj kvs # others)"
  by (induction j rule: getitem_0.induct) auto

lemma extract_smiles_Inr: "extract_smiles j = Inr v \<Longrightarrow> \<exists>kvs. j = JObj kvs"
  by (cases j) (auto simp: extract_smiles_def)

text \<open>Every successful run of the block on a 200 reply went through a well-formed reply.\<close>

lemma try_block_Inr:
  assumes "try_block r = Inr p"
  shows "(\<exists>status_code body. r = Response status_code body \<and> status_code \<noteq> 200 \<and> p = (JNull, JNull))
       \<or> (\<exists>doc table kvs others. r = Response 200 (Some (JObj doc))
            \<and> map_of doc ''PropertyTable'' = Some (JObj table)
            \<and> map_of table ''Properties'' = Some (JArr (JObj kvs # others)))"
proof (cases r)
  case (Raised e)
  with assms show ?thesis by (simp add: try_block_def)
next
  case (Response status_code body)
  show ?thesis
  proof (cases "status_code = 200")
    case False
    with assms Response show ?thesis by (auto simp: try_block_def)
  next
    case True
    with assms Response obtain json_data property_table properties_list first_result smi
      where b: "body = Some json_data"
        and 1: "getitem_key json_data ''PropertyTable'' = Inr property_table"
        and 2: "getitem_key property_table ''Properties'' = Inr properties_list"
        and 3: "getitem_0 properties_list = Inr first_result"
        and 4: "extract_smiles first_result = Inr smi"
      by (auto simp: try_block_def split: option.splits sum.splits)
    from 4 obtain kvs where k: "first_result = JObj kvs"
      using extract_smiles_Inr by blast
    from 3 k obtain others where pl: "properties_list = JArr (JObj kvs # others)"
      using getitem_0_dict by blast
    from 1 obtain doc where t: "json_data = JObj doc" "map_of doc ''PropertyTable'' = Some property_table"
      using getitem_key_Inr by blast
    from 2 obtain table where tb: "property_table = JObj table" "map_of table ''Properties'' = Some properties_list"
      using getitem_key_Inr by blast
    show ?thesis
      using Response True b t tb pl by auto
  qed
qed

text \<open>
  Claim C7. On a 200 reply whose document holds a results list under \<open>PropertyTable\<close>,
  \<open>Properties\<close>, and whose first result is an object, \<open>get_compound_data\<close> reads that
  first result only. The encoding is the first truthy (non-empty) value among the fields
  \<open>IsomericSMILES\<close>, \<open>CanonicalSMILES\<close>, \<open>SMILES\<close>, in this order, and the value of
  \<open>SMILES\<close> when none is; the mass is the field \<open>MolecularWeight\<close>, whatever the
  encoding lookup found.
\<close>

theorem get_compound_data_field_priority:
  assumes "http world (request_url drug_name) = Response 200 (Some (JObj doc))"
    and "map_of doc ''PropertyTable'' = Some (JObj table)"
    and "map_of table ''Properties'' = Some (JArr (JObj kvs # others))"
  shows "fst (get_compound_data world drug_name st) =
     ((case filter truthy [dict_get kvs ''IsomericSMILES'', dict_get kvs ''CanonicalSMILES'',
                           dict_get kvs ''SMILES''] of
         [] \<Rightarrow> dict_get kvs ''SMILES''
       | v # vs \<Rightarrow> v),
      dict_get kvs ''MolecularWeight'')"
  using assms by (simp add: get_compound_data_eq fetched_def try_block_result)

theorem get_compound_data_field_priority_witness:
  "fst (get_compound_data (lab service_third_name) ''Folic Acid'' st0) =
     (JStr ''CC(=O)O'', JStr ''60.05'')"
proof -
  have 1: "http (lab service_third_name) (request_url ''Folic Acid'') =
     Response 200 (Some (JObj [(''PropertyTable'', JObj [(''Properties'',
       JArr [JObj [(''IsomericSMILES'', JStr []), (''SMILES'', JStr ''CC(=O)O''),
                   (''MolecularWeight'', JStr ''60.05'')]])])]))"
    by (simp add: lab_def service_third_name_def ok_reply_def reply_doc_def)
  have 2: "map_of [(''PropertyTable'', JObj [(''Properties'',
       JArr [JObj [(''IsomericSMILES'', JStr []), (''SMILES'', JStr ''CC(=O)O''),
                   (''MolecularWeight'', JStr ''60.05'')]])])] ''PropertyTable'' =
     Some (JObj [(''Properties'',
       JArr [JObj [(''IsomericSMILES'', JStr []), (''SMILES'', JStr ''CC(=O)O''),
                   (''MolecularWeight'', JStr ''60.05'')]])])"
    by simp
  have 3: "map_of [(''Properties'',
       JArr [JObj [(''IsomericSMILES'', JStr []), (''SMILES'', JStr ''CC(=O)O''),
                   (''MolecularWeight'', JStr ''60.05'')]])] ''Properties'' =
     Some (JArr (JObj [(''IsomericSMILES'', JStr []), (''SMILES'', JStr ''CC(=O)O''),
                   (''MolecularWeight'', JStr ''60.05'')] # []))"
    by simp
  show ?thesis
    using get_compound_data_field_priority [OF 1 2 3, of st0]
    by (simp add: dict_get_def)
qed

text \<open>
  Claim C4 as stated fails: a result with an encoding and no mass gives a non-null
  encoding with a null mass, and a result with a mass and no encoding gives the converse.
\<close>

theorem get_compound_data_one_null_counterexample:
  "fst (get_compound_data (lab service_no_mass) ''Methotrexate'' st0) = (JStr ''CC(=O)O'', JNull)
   \<and> fst (get_compound_data (lab service_no_smiles) ''Methotrexate'' st0) = (JNull, JStr ''60.05'')"
  by (simp add: get_compound_data_def Let_def lab_def service_no_mass_def service_no_smiles_def
      ok_reply_def reply_doc_def try_block_def extract_smiles_def dict_get_def)

text \<open>
  Claim C4, amended. The pair is \<open>(None, None)\<close> on every failure: an exception in the
  \<open>try\<close> block or a reply whose status is not 200. On a 200 reply whose first result is
  an object, each component is looked up on its own: the mass is null exactly when field
  \<open>MolecularWeight\<close> is missing or null, and the encoding is null exactly when
  \<open>IsomericSMILES\<close> and \<open>CanonicalSMILES\<close> are missing or empty and \<open>SMILES\<close> is
  missing or null. A pair with a non-null component comes from such a reply only.
\<close>

theorem get_compound_data_null_components:
  "((\<exists>e. try_block (http world (request_url drug_name)) = Inl e)
      \<or> (\<exists>status_code body. http world (request_url drug_name) = Response status_code body
            \<and> status_code \<noteq> 200)
     \<longrightarrow> fst (get_compound_data world drug_name st) = (JNull, JNull))
   \<and> (http world (request_url drug_name) = Response 200 (Some (JObj doc))
        \<and> map_of doc ''PropertyTable'' = Some (JObj table)
        \<and> map_of table ''Properties'' = Some (JArr (JObj kvs # others))
     \<longrightarrow> (snd (fst (get_compound_data world drug_name st)) = JNull
            \<longleftrightarrow> dict_get kvs ''MolecularWeight'' = JNull)
         \<and> (fst (fst (get_compound_data world drug_name st)) = JNull
            \<longleftrightarrow> \<not> truthy (dict_get kvs ''IsomericSMILES'')
                \<and> \<not> truthy (dict_get kvs ''CanonicalSMILES'')
                \<and> dict_get kvs ''SMILES'' = JNull))
   \<and> (fst (get_compound_data world drug_name st) \<noteq> (JNull, JNull)
     \<longrightarrow> (\<exists>doc' table' kvs' others'.
            http world (request_url drug_name) = Response 200 (Some (JObj doc'))
          \<and> map_of doc' ''PropertyTable'' = Some (JObj table')
          \<and> map_of table' ''Properties'' = Some (JArr (JObj kvs' # others'))))"
proof (intro conjI impI)
  assume "(\<exists>e. try_block (http world (request_url drug_name)) = Inl e)
      \<or> (\<exists>status_code body. http world (request_url drug_name) = Response status_code body
            \<and> status_code \<noteq> 200)"
  then show "fst (get_compound_data world drug_name st) = (JNull, JNull)"
    by (auto simp: get_compound_data_eq fetched_def try_block_not_200)
next
  assume a: "http world (request_url drug_name) = Response 200 (Some (JObj doc))
        \<and> map_of doc ''PropertyTable'' = Some (JObj table)
        \<and> map_of table ''Properties'' = Some (JArr (JObj kvs # others))"
  then have t: "try_block (http world (request_url drug_name)) =
     Inr (if truthy (dict_get kvs ''IsomericSMILES'') then dict_get kvs ''IsomericSMILES''
          else if truthy (dict_get kvs ''CanonicalSMILES'') then dict_get kvs ''CanonicalSMILES''
          else dict_get kvs ''SMILES'',
          dict_get kvs ''MolecularWeight'')"
    by (simp add: try_block_result)
  show "snd (fst (get_compound_data world drug_name st)) = JNull
            \<longleftrightarrow> dict_get kvs ''MolecularWeight'' = JNull"
    by (simp add: get_compound_data_eq fetched_def t)
  show "fst (fst (get_compound_data world drug_name st)) = JNull
            \<longleftrightarrow> \<not> truthy (dict_get kvs ''IsomericSMILES'')
                \<and> \<not> truthy (dict_get kvs ''CanonicalSMILES'')
                \<and> dict_get kvs ''SMILES'' = JNull"
    by (auto simp: get_compound_data_eq fetched_def t)
next
  assume n: "fst (get_compound_data world drug_name st) \<noteq> (JNull, JNull)"
  then obtain p where p: "try_block (http world (request_url drug_name)) = Inr p"
      and pn: "p \<noteq> (JNull, JNull)"
    by (auto simp: get_compound_data_eq fetched_def split: sum.splits)
  from try_block_Inr [OF p] pn
  show "\<exists>doc' table' kvs' others'.
            http world (request_url drug_name) = Response 200 (Some (JObj doc'))
          \<and> map_of doc' ''PropertyTable'' = Some (JObj table')
          \<and> map_of table' ''Properties'' = Some (JArr (JObj kvs' # others'))"
    by auto
qed

theorem get_compound_data_null_components_witness:
  "fst (get_compound_data (lab service_404) ''Methotrexate'' st0) = (JNull, JNull)
   \<and> snd (fst (get_compound_data (lab service_no_mass) ''Methotrexate'' st0)) = JNull
   \<and> fst (fst (get_compound_data (lab service_no_mass) ''Methotrexate'' st0)) \<noteq> JNull"
proof -
  have 1: "http (lab service_404) (request_url ''Methotrexate'') =
             Response 404 (Some (JObj [(''Fault'', JStr ''PUGREST.NotFound'')]))
           \<and> (404::int) \<noteq> 200"
    by (simp add: lab_def service_404_def)
  have 2: "http (lab service_no_mass) (request_url ''Methotrexate'') =
             Response 200 (Some (JObj [(''PropertyTable'', JObj [(''Properties'',
               JArr [JObj [(''IsomericSMILES'', JStr ''CC(=O)O'')]])])]))
           \<and> map_of [(''PropertyTable'', JObj [(''Properties'',
               JArr [JObj [(''IsomericSMILES'', JStr ''CC(=O)O'')]])])] ''PropertyTable'' =
             Some (JObj [(''Properties'', JArr [JObj [(''IsomericSMILES'', JStr ''CC(=O)O'')]])])
           \<and> map_of [(''Properties'', JArr [JObj [(''IsomericSMILES'', JStr ''CC(=O)O'')]])]
               ''Properties'' =
             Some (JArr (JObj [(''IsomericSMILES'', JStr ''CC(=O)O'')] # []))"
    by (simp add: lab_def service_no_mass_def ok_reply_def reply_doc_def)
  have 3: "dict_get [(''IsomericSMILES'', JStr ''CC(=O)O'')] ''MolecularWeight'' = JNull
           \<and> truthy (dict_get [(''IsomericSMILES'', JStr ''CC(=O)O'')] ''IsomericSMILES'')"
    by (simp add: dict_get_def)
  show ?thesis
    using get_compound_data_null_components [of "lab service_404" "''Methotrexate''" st0]
      get_compound_data_null_components [where world = "lab service_no_mass"
        and drug_name = "''Methotrexate''" and st = st0
        and doc = "[(''PropertyTable'', JObj [(''Properties'',
               JArr [JObj [(''IsomericSMILES'', JStr ''CC(=O)O'')]])])]"
        and table = "[(''Properties'', JArr [JObj [(''IsomericSMILES'', JStr ''CC(=O)O'')]])]"
        and kvs = "[(''IsomericSMILES'', JStr ''CC(=O)O'')]" and others = "[]"]
      1 2 3
    by blast
qed

section \<open>The rows that a run stores\<close>














section \<open>The exported file\<close>

text \<open>
  Claim C2. For every state of the store, \<open>export_to_csv\<close> writes the header and then
  one data row per stored row: as many data rows as the table has rows, the \<open>i\<close>-th data
  row holding the six values of the \<open>i\<close>-th stored row in the order of the columns
  (name, category, encoding, mass, lipophilicity, score). The table is left as it was.
\<close>

theorem export_to_csv_round_trip:
  "\<exists>data. natvssynt_csv (export_to_csv st) = Some (csv_header # data)
     \<and> length data = length (results_db st)
     \<and> (\<forall>i < length (results_db st).
           data ! i = [JStr (r_name (results_db st ! i)), JStr (r_type (results_db st ! i)),
                       r_smiles (results_db st ! i), r_mw (results_db st ! i),
                       JNum (r_logp (results_db st ! i)), JNum (r_score (results_db st ! i))])
     \<and> results_db (export_to_csv st) = results_db st"
  by (rule exI [of _ "map row_values (results_db st)"])
     (simp add: export_to_csv_def Let_def row_values_def)

theorem export_to_csv_round_trip_witness:
  "natvssynt_csv (export_to_csv st_two_rows) =
     Some [csv_header,
           [JStr ''L-Methionine'', JStr ''Natural'', JStr ''CSCCC(C(=O)O)N'', JNull, JNum 0,
            JNum (- 8)],
           [JStr ''Trimethoprim'', JStr ''Synthetic'',
            JStr ''COC1=CC(=CC(=C1OC)OC)CC2=CN=C(N=C2N)N'', JNum (29032 / 100), JNum (1 / 2),
            JNum (- 95 / 10)]]"
proof -
  have l: "results_db st_two_rows =
        [\<lparr>r_name = ''L-Methionine'', r_type = ''Natural'', r_smiles = JStr ''CSCCC(C(=O)O)N'',
          r_mw = JNull, r_logp = 0, r_score = - 8\<rparr>,
         \<lparr>r_name = ''Trimethoprim'', r_type = ''Synthetic'',
          r_smiles = JStr ''COC1=CC(=CC(=C1OC)OC)CC2=CN=C(N=C2N)N'', r_mw = JNum (29032 / 100),
          r_logp = 1 / 2, r_score = - 95 / 10\<rparr>]"
    by (simp add: st_two_rows_def)
  from export_to_csv_round_trip [of st_two_rows]
  obtain data where f: "natvssynt_csv (export_to_csv st_two_rows) = Some (csv_header # data)"
    and d: "length data = length (results_db st_two_rows)"
    and i: "\<forall>i < length (results_db st_two_rows).
           data ! i = [JStr (r_name (results_db st_two_rows ! i)),
                       JStr (r_type (results_db st_two_rows ! i)),
                       r_smiles (results_db st_two_rows ! i), r_mw (results_db st_two_rows ! i),
                       JNum (r_logp (results_db st_two_rows ! i)),
                       JNum (r_score (results_db st_two_rows ! i))]"
    by (elim exE conjE)
  from d l have "length data = 2" by simp
  then obtain x y where xy: "data = [x, y]"
    by (cases data; cases "tl data") auto
  from i have "data ! 0 = [JStr (r_name (results_db st_two_rows ! 0)),
                       JStr (r_type (results_db st_two_rows ! 0)),
                       r_smiles (results_db st_two_rows ! 0), r_mw (results_db st_two_rows ! 0),
                       JNum (r_logp (results_db st_two_rows ! 0)),
                       JNum (r_score (results_db st_two_rows ! 0))]"
    and "data ! 1 = [JStr (r_name (results_db st_two_rows ! 1)),
                       JStr (r_type (results_db st_two_rows ! 1)),
                       r_smiles (results_db st_two_rows ! 1), r_mw (results_db st_two_rows ! 1),
                       JNum (r_logp (results_db st_two_rows ! 1)),
                       JNum (r_score (results_db st_two_rows ! 1))]"
    by (simp_all add: l)
  then have "x = [JStr ''L-Methionine'', JStr ''Natural'', JStr ''CSCCC(C(=O)O)N'', JNull,
                  JNum 0, JNum (- 8)]"
    and "y = [JStr ''Trimethoprim'', JStr ''Synthetic'',
            JStr ''COC1=CC(=CC(=C1OC)OC)CC2=CN=C(N=C2N)N'', JNum (29032 / 100), JNum (1 / 2),
            JNum (- 95 / 10)]"
    by (simp_all add: xy l)
  with f xy show ?thesis by simp
qed




section \<open>The affinity score\<close>

lemma run_docking_simulation_Synthetic:
  "fst (run_docking_simulation world ''Synthetic'' st) =
     py_round (fst (uniform world (- 6) (- 10) (rng st))
               - fst (uniform world 1 2 (snd (uniform world (- 6) (- 10) (rng st))))) 2"
  by (simp add: run_docking_simulation_def Let_def split: prod.splits)

lemma run_docking_simulation_other:
  "drug_type \<noteq> ''Synthetic'' \<Longrightarrow>
   run_docking_simulation world drug_type st =
     (py_round (fst (uniform world (- 6) (- 10) (rng st))) 2,
      st\<lparr>rng := snd (uniform world (- 6) (- 10) (rng st))\<rparr>)"
  by (simp add: run_docking_simulation_def Let_def split: prod.splits)

lemma py_round_2_between:
  assumes "of_int lo / 100 \<le> x" and "x \<le> of_int hi / 100"
  shows "of_int lo / 100 \<le> py_round x 2 \<and> py_round x 2 \<le> of_int hi / 100"
  using py_round_ge [of lo 2 x] py_round_le [of x hi 2] assms by simp

lemma py_round_2_near: "py_round x 2 \<le> x + 1 / 200 \<and> x - 1 / 200 \<le> py_round x 2"
proof -
  have "\<bar>py_round x 2 - x\<bar> \<le> 1 / 200"
    using py_round_error [of x 2] by simp
  then show ?thesis by linarith
qed

text \<open>
  Claim C5. When the base draw lies in \<open>[-10, -6]\<close>, the score of category
  \<open>"Natural"\<close> lies in \<open>[-10, -6]\<close>. When moreover the bonus draw lies in \<open>[1, 2]\<close>, the
  score of category \<open>"Synthetic"\<close> lies in \<open>[-12, -6]\<close>, and it is strictly lower than
  the base draw and than the score that the same base draw gives without the adjustment.
  The scores are the values after rounding to two digits.
\<close>

theorem run_docking_simulation_range:
  "(- 10 \<le> fst (uniform world (- 6) (- 10) (rng st))
      \<and> fst (uniform world (- 6) (- 10) (rng st)) \<le> - 6
    \<longrightarrow> - 10 \<le> fst (run_docking_simulation world ''Natural'' st)
        \<and> fst (run_docking_simulation world ''Natural'' st) \<le> - 6)
   \<and> (- 10 \<le> fst (uniform world (- 6) (- 10) (rng st))
      \<and> fst (uniform world (- 6) (- 10) (rng st)) \<le> - 6
      \<and> 1 \<le> fst (uniform world 1 2 (snd (uniform world (- 6) (- 10) (rng st))))
      \<and> fst (uniform world 1 2 (snd (uniform world (- 6) (- 10) (rng st)))) \<le> 2
    \<longrightarrow> - 12 \<le> fst (run_docking_simulation world ''Synthetic'' st)
        \<and> fst (run_docking_simulation world ''Synthetic'' st) \<le> - 6
        \<and> fst (run_docking_simulation world ''Synthetic'' st)
            < fst (uniform world (- 6) (- 10) (rng st))
        \<and> fst (run_docking_simulation world ''Synthetic'' st)
            < fst (run_docking_simulation world ''Natural'' st))"
proof (intro conjI impI)
  define base where "base = fst (uniform world (- 6) (- 10) (rng st))"
  define bonus where "bonus = fst (uniform world 1 2 (snd (uniform world (- 6) (- 10) (rng st))))"
  have nat: "fst (run_docking_simulation world ''Natural'' st) = py_round base 2"
    by (simp add: run_docking_simulation_other base_def)
  have syn: "fst (run_docking_simulation world ''Synthetic'' st) = py_round (base - bonus) 2"
    by (simp add: run_docking_simulation_Synthetic base_def bonus_def)
  {
    assume "- 10 \<le> fst (uniform world (- 6) (- 10) (rng st))
      \<and> fst (uniform world (- 6) (- 10) (rng st)) \<le> - 6"
    then have "of_int (- 1000) / 100 \<le> base" and "base \<le> of_int (- 600) / 100"
      by (simp_all add: base_def)
    then have "of_int (- 1000) / 100 \<le> py_round base 2 \<and> py_round base 2 \<le> of_int (- 600) / 100"
      by (rule py_round_2_between)
    then show "- 10 \<le> fst (run_docking_simulation world ''Natural'' st)"
      and "fst (run_docking_simulation world ''Natural'' st) \<le> - 6"
      by (simp_all add: nat)
  }
  assume a: "- 10 \<le> fst (uniform world (- 6) (- 10) (rng st))
      \<and> fst (uniform world (- 6) (- 10) (rng st)) \<le> - 6
      \<and> 1 \<le> fst (uniform world 1 2 (snd (uniform world (- 6) (- 10) (rng st))))
      \<and> fst (uniform world 1 2 (snd (uniform world (- 6) (- 10) (rng st)))) \<le> 2"
  then have b: "- 10 \<le> base" "base \<le> - 6" "1 \<le> bonus" "bonus \<le> 2"
    by (simp_all add: base_def bonus_def)
  then have "of_int (- 1200) / 100 \<le> base - bonus" and "base - bonus \<le> of_int (- 700) / 100"
    by simp_all
  then have r: "of_int (- 1200) / 100 \<le> py_round (base - bonus) 2
      \<and> py_round (base - bonus) 2 \<le> of_int (- 700) / 100"
    by (rule py_round_2_between)
  from r show "- 12 \<le> fst (run_docking_simulation world ''Synthetic'' st)"
    by (simp add: syn)
  from r show "fst (run_docking_simulation world ''Synthetic'' st) \<le> - 6"
    by (simp add: syn)
  have n1: "py_round (base - bonus) 2 \<le> base - bonus + 1 / 200"
    using py_round_2_near [of "base - bonus"] by simp
  have n2: "base - 1 / 200 \<le> py_round base 2"
    using py_round_2_near [of base] by simp
  from n1 b show "fst (run_docking_simulation world ''Synthetic'' st)
            < fst (uniform world (- 6) (- 10) (rng st))"
    by (simp add: syn base_def [symmetric])
  from n1 n2 b show "fst (run_docking_simulation world ''Synthetic'' st)
            < fst (run_docking_simulation world ''Natural'' st)"
    by (simp add: syn nat)
qed


theorem run_docking_simulation_range_witness:
  "fst (run_docking_simulation (lab service_down) ''Natural'' st0) = - 8
   \<and> fst (run_docking_simulation (lab service_down) ''Synthetic'' st0) = - 95 / 10
   \<and> - 12 \<le> fst (run_docking_simulation (lab service_down) ''Synthetic'' st0)
   \<and> fst (run_docking_simulation (lab service_down) ''Synthetic'' st0)
        < fst (run_docking_simulation (lab service_down) ''Natural'' st0)"
proof -
  have u: "- 10 \<le> fst (uniform (lab service_down) (- 6) (- 10) (rng st0))
      \<and> fst (uniform (lab service_down) (- 6) (- 10) (rng st0)) \<le> - 6
      \<and> 1 \<le> fst (uniform (lab service_down) 1 2
                 (snd (uniform (lab service_down) (- 6) (- 10) (rng st0))))
      \<and> fst (uniform (lab service_down) 1 2
                 (snd (uniform (lab service_down) (- 6) (- 10) (rng st0)))) \<le> 2"
    by (simp add: lab_def)
  have n: "fst (run_docking_simulation (lab service_down) ''Natural'' st0) = - 8"
    by (simp add: run_docking_simulation_def Let_def lab_def py_round_def)
  have s: "fst (run_docking_simulation (lab service_down) ''Synthetic'' st0) = - 95 / 10"
    by (simp add: run_docking_simulation_def Let_def lab_def py_round_def)
  show ?thesis
    using run_docking_simulation_range [of "lab service_down" st0] u n s by simp
qed

text \<open>
  Claim C10. For every category label other than the exact string \<open>"Synthetic"\<close>,
  \<open>run_docking_simulation\<close> makes the base draw only and returns it rounded to two
  digits: the result, and the state of the generator after it, are those of category
  \<open>"Natural"\<close>, and the score lies in \<open>[-10, -6]\<close> when the base draw does.
\<close>

theorem run_docking_simulation_not_Synthetic:
  "drug_type \<noteq> ''Synthetic'' \<longrightarrow>
     run_docking_simulation world drug_type st =
       (py_round (fst (uniform world (- 6) (- 10) (rng st))) 2,
        st\<lparr>rng := snd (uniform world (- 6) (- 10) (rng st))\<rparr>)
   \<and> run_docking_simulation world drug_type st = run_docking_simulation world ''Natural'' st
   \<and> (- 10 \<le> fst (uniform world (- 6) (- 10) (rng st))
        \<and> fst (uniform world (- 6) (- 10) (rng st)) \<le> - 6
      \<longrightarrow> - 10 \<le> fst (run_docking_simulation world drug_type st)
          \<and> fst (run_docking_simulation world drug_type st) \<le> - 6)"
proof (intro impI conjI)
  assume d: "drug_type \<noteq> ''Synthetic''"
  then show e: "run_docking_simulation world drug_type st =
       (py_round (fst (uniform world (- 6) (- 10) (rng st))) 2,
        st\<lparr>rng := snd (uniform world (- 6) (- 10) (rng st))\<rparr>)"
    by (rule run_docking_simulation_other)
  then show "run_docking_simulation world drug_type st =
       run_docking_simulation world ''Natural'' st"
    by (simp add: run_docking_simulation_other)
  assume "- 10 \<le> fst (uniform world (- 6) (- 10) (rng st))
        \<and> fst (uniform world (- 6) (- 10) (rng st)) \<le> - 6"
  then have "of_int (- 1000) / 100 \<le> fst (uniform world (- 6) (- 10) (rng st))"
    and "fst (uniform world (- 6) (- 10) (rng st)) \<le> of_int (- 600) / 100"
    by simp_all
  then have "of_int (- 1000) / 100 \<le> py_round (fst (uniform world (- 6) (- 10) (rng st))) 2
      \<and> py_round (fst (uniform world (- 6) (- 10) (rng st))) 2 \<le> of_int (- 600) / 100"
    by (rule py_round_2_between)
  then show "- 10 \<le> fst (run_docking_simulation world drug_type st)"
    and "fst (run_docking_simulation world drug_type st) \<le> - 6"
    by (simp_all add: e)
qed

theorem run_docking_simulation_not_Synthetic_witness:
  "run_docking_simulation (lab service_down) ''synthetic'' st0 = (- 8, st0\<lparr>rng := 1\<rparr>)
   \<and> run_docking_simulation (lab service_down) ''Unknown'' st0 =
       run_docking_simulation (lab service_down) ''Natural'' st0"
proof -
  have 1: "''synthetic'' \<noteq> ''Synthetic''" and 2: "''Unknown'' \<noteq> ''Synthetic''" by simp_all
  have u: "py_round (fst (uniform (lab service_down) (- 6) (- 10) (rng st0))) 2 = - 8
     \<and> snd (uniform (lab service_down) (- 6) (- 10) (rng st0)) = 1"
    by (simp add: lab_def py_round_def st0_def)
  from run_docking_simulation_not_Synthetic [of "''synthetic''" "lab service_down" st0] 1
  have "run_docking_simulation (lab service_down) ''synthetic'' st0 =
       (py_round (fst (uniform (lab service_down) (- 6) (- 10) (rng st0))) 2,
        st0\<lparr>rng := snd (uniform (lab service_down) (- 6) (- 10) (rng st0))\<rparr>)"
    by blast
  with u have a: "run_docking_simulation (lab service_down) ''synthetic'' st0 =
       (- 8, st0\<lparr>rng := 1\<rparr>)"
    by simp
  from run_docking_simulation_not_Synthetic [of "''Unknown''" "lab service_down" st0] 2
  have b: "run_docking_simulation (lab service_down) ''Unknown'' st0 =
       run_docking_simulation (lab service_down) ''Natural'' st0"
    by blast
  from a b show ?thesis by (rule conjI)
qed

section \<open>The descriptor\<close>

lemma py_round_grid: "\<exists>k::int. py_round x n = of_int k / 10 ^ n"
  using py_round_cases [of x n] by blast

text \<open>
  Claim C6. \<open>calculate_logp\<close> returns \<open>0.0\<close> for a null encoding. For any encoding it
  returns \<open>0.0\<close> when parsing raises, when parsing yields no molecule, and when the
  calculation of the descriptor raises. For a non-null encoding that parses to a molecule
  whose descriptor is computed, it returns the descriptor rounded to four digits: a
  multiple of \<open>0.0001\<close> at most \<open>0.00005\<close> away from the descriptor.
\<close>

theorem calculate_logp_cases:
  "calculate_logp world JNull = 0
   \<and> ((\<exists>e. MolFromSmiles world smiles_string = Inl e)
        \<or> MolFromSmiles world smiles_string = Inr None
        \<or> (\<exists>molecule e. MolFromSmiles world smiles_string = Inr (Some molecule)
              \<and> MolLogP world molecule = Inl e)
      \<longrightarrow> calculate_logp world smiles_string = 0)
   \<and> (smiles_string \<noteq> JNull
        \<and> MolFromSmiles world smiles_string = Inr (Some molecule)
        \<and> MolLogP world molecule = Inr log_p_value
      \<longrightarrow> calculate_logp world smiles_string = py_round log_p_value 4
        \<and> (\<exists>k::int. calculate_logp world smiles_string = of_int k / 10 ^ 4)
        \<and> \<bar>calculate_logp world smiles_string - log_p_value\<bar> \<le> 1 / 20000)"
proof (intro conjI impI)
  show "calculate_logp world JNull = 0"
    by (simp add: calculate_logp_def)
next
  assume "(\<exists>e. MolFromSmiles world smiles_string = Inl e)
        \<or> MolFromSmiles world smiles_string = Inr None
        \<or> (\<exists>molecule e. MolFromSmiles world smiles_string = Inr (Some molecule)
              \<and> MolLogP world molecule = Inl e)"
  then show "calculate_logp world smiles_string = 0"
    by (auto simp: calculate_logp_def)
next
  assume a: "smiles_string \<noteq> JNull
        \<and> MolFromSmiles world smiles_string = Inr (Some molecule)
        \<and> MolLogP world molecule = Inr log_p_value"
  then show e: "calculate_logp world smiles_string = py_round log_p_value 4"
    by (simp add: calculate_logp_def)
  show "\<exists>k::int. calculate_logp world smiles_string = of_int k / 10 ^ 4"
    unfolding e by (rule py_round_grid)
  show "\<bar>calculate_logp world smiles_string - log_p_value\<bar> \<le> 1 / 20000"
    unfolding e using py_round_error [of log_p_value 4] by simp
qed

theorem calculate_logp_cases_witness:
  "calculate_logp lab_chem (JNum 5) = 0
   \<and> calculate_logp lab_chem (JStr ''not a molecule'') = 0
   \<and> calculate_logp lab_chem (JStr []) = 0
   \<and> calculate_logp lab_chem (JStr ''CCO'') = 32346 / 10000"
proof -
  have 1: "MolFromSmiles lab_chem (JNum 5) = Inl TypeError"
    and 2: "MolFromSmiles lab_chem (JStr ''not a molecule'') = Inr None"
    and 3: "MolFromSmiles lab_chem (JStr []) = Inr (Some 0)
            \<and> MolLogP lab_chem 0 = Inl (OtherException ''no atoms'')"
    and 4: "JStr ''CCO'' \<noteq> JNull \<and> MolFromSmiles lab_chem (JStr ''CCO'') = Inr (Some 3)
            \<and> MolLogP lab_chem 3 = Inr (323456 / 100000)"
    by (simp_all add: lab_chem_def)
  have r: "py_round (323456 / 100000) 4 = 32346 / 10000"
    by (simp add: py_round_def Let_def)
  from calculate_logp_cases [where world = lab_chem and smiles_string = "JNum 5"] 1
  have a: "calculate_logp lab_chem (JNum 5) = 0" by blast
  from calculate_logp_cases [where world = lab_chem and smiles_string = "JStr ''not a molecule''"] 2
  have b: "calculate_logp lab_chem (JStr ''not a molecule'') = 0" by blast
  from calculate_logp_cases [where world = lab_chem and smiles_string = "JStr []"] 3
  have c: "calculate_logp lab_chem (JStr []) = 0" by blast
  from calculate_logp_cases [where world = lab_chem and smiles_string = "JStr ''CCO''"
      and molecule = 3 and log_p_value = "323456 / 100000"] 4
  have "calculate_logp lab_chem (JStr ''CCO'') = py_round (323456 / 100000) 4" by blast
  with r have d: "calculate_logp lab_chem (JStr ''CCO'') = 32346 / 10000" by simp
  from a b c d show ?thesis by blast
qed

section \<open>The dashboard on a load failure\<close>

text \<open>
  Claim C8. When loading the exported table fails, \<open>create_dashboard\<close> returns normally
  (no exception leaves it), has printed the message \<open>Error loading data\<close> with the text of
  the error, and has written no image: file \<open>dashboard.png\<close> is as it was before, and
  so is the exported table.
\<close>

theorem create_dashboard_load_failure:
  "read_csv lib (csv_file ps) = Inl e \<longrightarrow>
     (\<exists>ps'. create_dashboard lib ps = Inr ps'
        \<and> dashboard_png ps' = dashboard_png ps
        \<and> csv_file ps' = csv_file ps
        \<and> printed ps' = printed ps @ [''Error loading data: '' @ exn_text lib e])"
proof
  assume "read_csv lib (csv_file ps) = Inl e"
  then have "create_dashboard lib ps =
      Inr (ps\<lparr>printed := printed ps @ [''Error loading data: '' @ exn_text lib e]\<rparr>)"
    by (simp add: create_dashboard_def)
  then show "\<exists>ps'. create_dashboard lib ps = Inr ps'
        \<and> dashboard_png ps' = dashboard_png ps
        \<and> csv_file ps' = csv_file ps
        \<and> printed ps' = printed ps @ [''Error loading data: '' @ exn_text lib e]"
    by simp
qed


theorem create_dashboard_load_failure_witness:
  "\<exists>ps'. create_dashboard plot_lab ps0 = Inr ps' \<and> dashboard_png ps' = None
      \<and> csv_file ps' = None
      \<and> printed ps' = [''Error loading data: No such file or directory'']"
proof -
  have 1: "read_csv plot_lab (csv_file ps0) = Inl (OtherException ''No such file or directory'')"
    by (simp add: plot_lab_def ps0_def)
  have 2: "exn_text plot_lab (OtherException ''No such file or directory'') =
             ''No such file or directory''"
    by (simp add: plot_lab_def)
  have 3: "dashboard_png ps0 = None" "printed ps0 = []" "csv_file ps0 = None"
    by (simp_all add: ps0_def)
  have "\<exists>ps'. create_dashboard plot_lab ps0 = Inr ps'
        \<and> dashboard_png ps' = dashboard_png ps0
        \<and> csv_file ps' = csv_file ps0
        \<and> printed ps' = printed ps0 @
             [''Error loading data: '' @
              exn_text plot_lab (OtherException ''No such file or directory'')]"
    by (rule mp [OF create_dashboard_load_failure 1])
  then show ?thesis
    by (simp add: 2 3)
qed

end
